theory Spec2Isabelle
  imports
    Complex_Main
    "HOL-Library.Sublist"
    "HOL-Library.Char_ord"
    "HOL-Library.List_Lexorder"
    "HOL-Library.Multiset"
begin

section \<open>Shift-change recorder: the model of \<^verbatim>\<open>app.py\<close>\<close>

text \<open>
  The program is a WSGI application over one SQLite table. Its text values are Python
  \<^verbatim>\<open>str\<close>; they are modelled as \<^typ>\<open>string\<close>, one \<^typ>\<open>char\<close> per
  code point, which covers the code points below 256. The UTF-8 codec at the two ends of a
  request (decoding the request body, encoding the rendered page) is outside the model:
  \<open>wsgi_input\<close> holds the body text and a response holds the page text.
  Exceptions are values of the type \<open>error\<close>; a function that may raise returns
  \<open>error + 'a\<close>.
\<close>

datatype error = ValueError | TypeError | FileNotFoundError | OperationalError

subsection \<open>Characters and strings\<close>

definition is_digit :: "char \<Rightarrow> bool" where
  \<comment> \<open>the regular expression class \<^verbatim>\<open>\d\<close> on code points below 256\<close>
  "is_digit c \<longleftrightarrow> 48 \<le> (of_char c :: nat) \<and> (of_char c :: nat) \<le> 57"

definition digit_val :: "char \<Rightarrow> nat" where
  "digit_val c = of_char c - 48"

definition is_space :: "char \<Rightarrow> bool" where
  \<comment> \<open>\<^verbatim>\<open>str.isspace\<close> on code points below 256\<close>
  "is_space c \<longleftrightarrow>
     (let n = (of_char c :: nat)
      in (9 \<le> n \<and> n \<le> 13) \<or> (28 \<le> n \<and> n \<le> 32) \<or> n = 133 \<or> n = 160)"

definition strip :: "string \<Rightarrow> string" where
  \<comment> \<open>\<^verbatim>\<open>str.strip()\<close>\<close>
  "strip s = rev (dropWhile is_space (rev (dropWhile is_space s)))"

definition upper_char :: "char \<Rightarrow> char" where
  "upper_char c =
     (if 97 \<le> (of_char c :: nat) \<and> (of_char c :: nat) \<le> 122
      then char_of ((of_char c :: nat) - 32) else c)"

definition upper :: "string \<Rightarrow> string" where
  \<comment> \<open>\<^verbatim>\<open>str.upper()\<close> on the letters a to z. Python also changes letters beyond
      ASCII, into letters beyond ASCII or into \<^verbatim>\<open>SS\<close>; the result is only ever compared
      with \<^verbatim>\<open>GET\<close> and \<^verbatim>\<open>POST\<close>, which that cannot produce.\<close>
  "upper s = map upper_char s"

definition lower_char :: "char \<Rightarrow> char" where
  \<comment> \<open>SQLite folds the case of ASCII letters only\<close>
  "lower_char c =
     (if 65 \<le> (of_char c :: nat) \<and> (of_char c :: nat) \<le> 90
      then char_of ((of_char c :: nat) + 32) else c)"

fun replace :: "string \<Rightarrow> string \<Rightarrow> string \<Rightarrow> string" where
  \<comment> \<open>\<^verbatim>\<open>s.replace(old, new)\<close>, written \<open>replace old new s\<close>: every occurrence,
      left to right, without overlap\<close>
  "replace [] new s = new @ concat (map (\<lambda>c. c # new) s)"
| "replace (a # old) new [] = []"
| "replace (a # old) new (c # s) =
     (if prefix (a # old) (c # s)
      then new @ replace (a # old) new (drop (length old) s)
      else c # replace (a # old) new s)"

fun split_on :: "char \<Rightarrow> string \<Rightarrow> string list" where
  \<comment> \<open>\<^verbatim>\<open>s.split(sep)\<close> for a separator of one character\<close>
  "split_on sep [] = [[]]"
| "split_on sep (c # s) =
     (if c = sep then [] # split_on sep s
      else (case split_on sep s of w # ws \<Rightarrow> (c # w) # ws | [] \<Rightarrow> [[c]]))"

definition split_once :: "char \<Rightarrow> string \<Rightarrow> string list" where
  \<comment> \<open>\<^verbatim>\<open>s.split(sep, 1)\<close>: at the first separator only\<close>
  "split_once sep s =
     (if sep \<in> set s
      then [takeWhile (\<lambda>c. c \<noteq> sep) s, tl (dropWhile (\<lambda>c. c \<noteq> sep) s)]
      else [s])"

subsection \<open>Dates and times: what \<^verbatim>\<open>compute_total_hours\<close> uses of \<^verbatim>\<open>datetime\<close>\<close>

record datetime =
  year :: nat
  month :: nat
  day :: nat
  hour :: nat
  minute :: nat
  second :: nat

definition is_leap :: "nat \<Rightarrow> bool" where
  "is_leap y \<longleftrightarrow> y mod 4 = 0 \<and> (y mod 100 \<noteq> 0 \<or> y mod 400 = 0)"

definition days_in_month :: "nat \<Rightarrow> nat \<Rightarrow> nat" where
  "days_in_month y m =
     (if m = 2 then (if is_leap y then 29 else 28)
      else if m \<in> {4, 6, 9, 11} then 30 else 31)"

definition days_before_year :: "nat \<Rightarrow> nat" where
  "days_before_year y = (y - 1) * 365 + (y - 1) div 4 - (y - 1) div 100 + (y - 1) div 400"

definition days_before_month :: "nat \<Rightarrow> nat \<Rightarrow> nat" where
  "days_before_month y m = sum_list (map (days_in_month y) [1..<m])"

definition toordinal :: "datetime \<Rightarrow> nat" where
  "toordinal d = days_before_year (year d) + days_before_month (year d) (month d) + day d"

definition dt_le :: "datetime \<Rightarrow> datetime \<Rightarrow> bool" where
  \<comment> \<open>\<^verbatim>\<open>a <= b\<close> on naive datetimes: field by field, most significant first\<close>
  "dt_le a b \<longleftrightarrow>
     [year a, month a, day a, hour a, minute a, second a]
       \<le> [year b, month b, day b, hour b, minute b, second b]"

definition replace_day :: "datetime \<Rightarrow> nat \<Rightarrow> error + datetime" where
  \<comment> \<open>\<^verbatim>\<open>d.replace(day=n)\<close>: a day the month does not have raises ValueError\<close>
  "replace_day d n =
     (if 1 \<le> n \<and> n \<le> days_in_month (year d) (month d) then Inr (d\<lparr>day := n\<rparr>)
      else Inl ValueError)"

definition seconds_of_day :: "datetime \<Rightarrow> int" where
  "seconds_of_day d = int (hour d * 3600 + minute d * 60 + second d)"

definition total_seconds :: "datetime \<Rightarrow> datetime \<Rightarrow> int" where
  \<comment> \<open>\<^verbatim>\<open>(a - b).total_seconds()\<close>\<close>
  "total_seconds a b =
     (int (toordinal a) - int (toordinal b)) * 86400
       + (seconds_of_day a - seconds_of_day b)"

definition hour_alternatives :: "string \<Rightarrow> (nat \<times> string) list" where
  \<comment> \<open>the group \<^verbatim>\<open>(?P<H>2[0-3]|[0-1]\d|\d)\<close> that \<^verbatim>\<open>%H\<close> compiles to: the ways it
      matches at the start of the text, in the order the regex engine tries them, each with
      the text left over\<close>
  "hour_alternatives s =
     (case s of
        a # b # r \<Rightarrow>
          (if a = CHR ''2'' \<and> b \<in> set ''0123'' then [(20 + digit_val b, r)] else [])
          @ (if a \<in> set ''01'' \<and> is_digit b then [(10 * digit_val a + digit_val b, r)] else [])
          @ (if is_digit a then [(digit_val a, b # r)] else [])
      | [a] \<Rightarrow> (if is_digit a then [(digit_val a, [])] else [])
      | [] \<Rightarrow> [])"

definition minute_alternatives :: "string \<Rightarrow> (nat \<times> string) list" where
  \<comment> \<open>the group \<^verbatim>\<open>(?P<M>[0-5]\d|\d)\<close> of \<^verbatim>\<open>%M\<close>\<close>
  "minute_alternatives s =
     (case s of
        a # b # r \<Rightarrow>
          (if a \<in> set ''012345'' \<and> is_digit b then [(10 * digit_val a + digit_val b, r)] else [])
          @ (if is_digit a then [(digit_val a, b # r)] else [])
      | [a] \<Rightarrow> (if is_digit a then [(digit_val a, [])] else [])
      | [] \<Rightarrow> [])"

definition strptime_HM :: "string \<Rightarrow> error + datetime" where
  \<comment> \<open>\<^verbatim>\<open>datetime.strptime(s, "%H:%M")\<close>: the first way the regular expression matches a
      prefix of the text; no match, or text left over after it, raises ValueError. The
      date defaults to 1900-01-01.\<close>
  "strptime_HM s =
     (case concat (map (\<lambda>(h, r). case r of
                              c # r' \<Rightarrow>
                                if c = CHR '':''
                                then map (\<lambda>(m, r''). (h, m, r'')) (minute_alternatives r')
                                else []
                            | [] \<Rightarrow> [])
                        (hour_alternatives s)) of
        [] \<Rightarrow> Inl ValueError
      | (h, m, rest) # _ \<Rightarrow>
          if rest = [] then
            Inr \<lparr>year = 1900, month = 1, day = 1, hour = h, minute = m, second = 0\<rparr>
          else Inl ValueError)"

definition round_half_even :: "rat \<Rightarrow> int" where
  "round_half_even x =
     (let f = \<lfloor>x\<rfloor>; d = x - of_int f
      in if d < 1 / 2 then f else if 1 / 2 < d then f + 1
         else if even f then f else f + 1)"

definition py_round2 :: "rat \<Rightarrow> rat" where
  \<comment> \<open>\<^verbatim>\<open>round(x, 2)\<close>. A float is modelled by the rational it stands for. The argument
      is a whole number of minutes divided by 60, so a hundred times it is never half-way
      between two integers and the nearest float decides as the rational does.\<close>
  "py_round2 x = of_int (round_half_even (x * 100)) / 100"

definition compute_total_hours :: "string \<Rightarrow> string \<Rightarrow> error + rat" where
  "compute_total_hours start_time end_time =
     (case strptime_HM start_time of
        Inl e \<Rightarrow> Inl e
      | Inr start \<Rightarrow>
         (case strptime_HM end_time of
            Inl e \<Rightarrow> Inl e
          | Inr end0 \<Rightarrow>
             (case (if dt_le end0 start then replace_day end0 (day end0 + 1) else Inr end0) of
                Inl e \<Rightarrow> Inl e
              | Inr end1 \<Rightarrow> Inr (py_round2 (of_int (total_seconds end1 start) / 3600)))))"

subsection \<open>Form data: \<^verbatim>\<open>parse_post_data\<close> and what it uses of \<^verbatim>\<open>urllib.parse\<close>\<close>

text \<open>
  \<^verbatim>\<open>parse_qs\<close> is called with its defaults: fields are separated by \<^verbatim>\<open>&\<close>, a field
  without \<^verbatim>\<open>=\<close> or with nothing after it is skipped (\<^verbatim>\<open>keep_blank_values=False\<close>,
  \<^verbatim>\<open>strict_parsing=False\<close>), \<^verbatim>\<open>+\<close> stands for a space, and names and values are
  percent-decoded. The percent-decoder \<^verbatim>\<open>urllib.parse.unquote\<close> is a parameter of the
  model, \<open>unquote\<close>: nothing below depends on what it does.
\<close>

definition parse_qsl :: "(string \<Rightarrow> string) \<Rightarrow> string \<Rightarrow> (string \<times> string) list" where
  "parse_qsl unquote qs =
     concat (map (\<lambda>name_value.
                    if name_value = [] then []
                    else (case split_once CHR ''='' name_value of
                            [n, v] \<Rightarrow>
                              if v \<noteq> []
                              then [(unquote (replace ''+'' '' '' n), unquote (replace ''+'' '' '' v))]
                              else []
                          | _ \<Rightarrow> []))
                 (split_on CHR ''&'' qs))"

definition parse_qs :: "(string \<Rightarrow> string) \<Rightarrow> string \<Rightarrow> (string \<rightharpoonup> string list)" where
  "parse_qs unquote qs =
     foldl (\<lambda>parsed_result (name, v).
              case parsed_result name of
                Some vs \<Rightarrow> parsed_result(name \<mapsto> vs @ [v])
              | None \<Rightarrow> parsed_result(name \<mapsto> [v]))
           Map.empty (parse_qsl unquote qs)"

record environ =
  PATH_INFO :: "string option"
  REQUEST_METHOD :: "string option"
  CONTENT_LENGTH :: "nat option"
  wsgi_input :: string

text \<open>
  \<open>CONTENT_LENGTH\<close> holds the number that \<^verbatim>\<open>int(environ.get("CONTENT_LENGTH", 0))\<close>
  yields, and \<open>None\<close> where the conversion raises, which the code turns into 0. Reading
  \<open>n\<close> bytes of the input gives its first \<open>n\<close> characters.
\<close>

definition request_body :: "environ \<Rightarrow> string" where
  \<comment> \<open>\<^verbatim>\<open>environ["wsgi.input"].read(request_body_size).decode("utf-8")\<close>\<close>
  "request_body env =
     (let request_body_size = (case CONTENT_LENGTH env of None \<Rightarrow> 0 | Some n \<Rightarrow> n)
      in take request_body_size (wsgi_input env))"

definition parse_post_data :: "(string \<Rightarrow> string) \<Rightarrow> environ \<Rightarrow> (string \<rightharpoonup> string)" where
  \<comment> \<open>\<^verbatim>\<open>{k: v[0] for k, v in parse_qs(request_body).items()}\<close>; the lists that
      \<^verbatim>\<open>parse_qs\<close> builds are never empty\<close>
  "parse_post_data unquote env =
     (\<lambda>k. case parse_qs unquote (request_body env) k of
            None \<Rightarrow> None
          | Some v \<Rightarrow> (case v of x # _ \<Rightarrow> Some x | [] \<Rightarrow> None))"

definition get :: "(string \<rightharpoonup> string) \<Rightarrow> string \<Rightarrow> string \<Rightarrow> string" where
  \<comment> \<open>\<^verbatim>\<open>form.get(key, default)\<close>\<close>
  "get form k d = (case form k of None \<Rightarrow> d | Some v \<Rightarrow> v)"

subsection \<open>The table \<^verbatim>\<open>shift_changes\<close>\<close>

record shift_change =
  row_id :: nat
  employee_name :: string
  date :: string
  start_time :: string
  end_time :: string
  rotation :: string
  total_hours :: rat
  comment :: string

text \<open>
  The database is the table's rows in the order of insertion, or \<open>None\<close> while the table
  does not exist. A statement on a table that does not exist raises OperationalError.
\<close>

type_synonym database = "shift_change list option"

definition table_rows :: "database \<Rightarrow> shift_change list" where
  "table_rows db = (case db of None \<Rightarrow> [] | Some rows \<Rightarrow> rows)"

definition init_db :: "database \<Rightarrow> database" where
  \<comment> \<open>\<^verbatim>\<open>CREATE TABLE IF NOT EXISTS shift_changes (...)\<close>\<close>
  "init_db db = (case db of None \<Rightarrow> Some [] | Some rows \<Rightarrow> Some rows)"

definition db_insert ::
  "string \<times> string \<times> string \<times> string \<times> string \<times> rat \<times> string \<Rightarrow> database \<Rightarrow> error + database"
where
  \<comment> \<open>\<^verbatim>\<open>INSERT INTO shift_changes (...) VALUES (?, ?, ?, ?, ?, ?, ?)\<close>; the new row gets
      the next identifier. No row is ever deleted, so that is one more than the largest
      identifier in the table.\<close>
  "db_insert vals db =
     (case db of
        None \<Rightarrow> Inl OperationalError
      | Some rows \<Rightarrow>
         (case vals of (n, d, s, e, r, h, c) \<Rightarrow>
            Inr (Some (rows @
              [\<lparr>row_id = Suc (foldr max (map row_id rows) 0), employee_name = n, date = d,
                start_time = s, end_time = e, rotation = r, total_hours = h, comment = c\<rparr>]))))"

fun like :: "string \<Rightarrow> string \<Rightarrow> bool" where
  \<comment> \<open>SQLite's \<^verbatim>\<open>text LIKE pattern\<close>, written \<open>like pattern text\<close>: \<^verbatim>\<open>%\<close> matches any
      run of characters, \<^verbatim>\<open>_\<close> any one character, and any other character itself, ASCII
      letters without regard to case\<close>
  "like [] s = (s = [])"
| "like (p # ps) [] = (p = CHR ''%'' \<and> like ps [])"
| "like (p # ps) (c # cs) =
     (if p = CHR ''%'' then like ps (c # cs) \<or> like (p # ps) cs
      else (p = CHR ''_'' \<or> lower_char p = lower_char c) \<and> like ps cs)"

definition order_le :: "shift_change \<Rightarrow> shift_change \<Rightarrow> bool" where
  \<comment> \<open>\<^verbatim>\<open>ORDER BY date DESC, start_time ASC\<close>: the first row may come before the second.
      Text compares character by character (the BINARY collation).\<close>
  "order_le a b \<longleftrightarrow> date b < date a \<or> (date a = date b \<and> start_time a \<le> start_time b)"

fun insort_by :: "('a \<Rightarrow> 'a \<Rightarrow> bool) \<Rightarrow> 'a \<Rightarrow> 'a list \<Rightarrow> 'a list" where
  "insort_by le x [] = [x]"
| "insort_by le x (y # ys) = (if le x y then x # y # ys else y # insort_by le x ys)"

definition order_by :: "('a \<Rightarrow> 'a \<Rightarrow> bool) \<Rightarrow> 'a list \<Rightarrow> 'a list" where
  \<comment> \<open>SQLite does not say in which order it returns rows that compare equal; the model
      keeps them in the order of the table\<close>
  "order_by le xs = foldr (insort_by le) xs []"

definition db_select :: "(shift_change \<Rightarrow> bool) list \<Rightarrow> database \<Rightarrow> error + shift_change list" where
  \<comment> \<open>\<^verbatim>\<open>SELECT * FROM shift_changes WHERE 1=1 AND ... ORDER BY date DESC, start_time ASC\<close>,
      the conditions that the code appends given as a list\<close>
  "db_select conds db =
     (case db of
        None \<Rightarrow> Inl OperationalError
      | Some rows \<Rightarrow> Inr (order_by order_le (filter (\<lambda>r. list_all (\<lambda>cond. cond r) conds) rows)))"

definition search_results :: "(string \<Rightarrow> string) \<Rightarrow> environ \<Rightarrow> database \<Rightarrow> error + shift_change list" where
  \<comment> \<open>the \<^verbatim>\<open>POST\<close> branch of \<^verbatim>\<open>/search\<close>, up to the list \<^verbatim>\<open>results\<close>\<close>
  "search_results unquote env db =
     (let form = parse_post_data unquote env;
          name_filter = strip (get form ''employee_name'' '''');
          date_filter = strip (get form ''date'' '''');
          conds =
            (if name_filter \<noteq> []
             then [\<lambda>r. like (''%'' @ name_filter @ ''%'') (employee_name r)] else [])
            @ (if date_filter \<noteq> [] then [\<lambda>r. date r = date_filter] else [])
      in db_select conds db)"

subsection \<open>The template renderer\<close>

text \<open>
  The template files are outside the program: \<open>templates\<close> gives the text of each file
  that exists. A context is a Python dict, here the list of its items in their order. Its
  values are texts or lists of rows.
\<close>

datatype context_value = Str string | Rows "shift_change list"

fun show_nat :: "nat \<Rightarrow> string" where
  "show_nat n =
     (if n < 10 then [''0123456789'' ! n]
      else show_nat (n div 10) @ [''0123456789'' ! (n mod 10)])"

definition float_str :: "rat \<Rightarrow> string" where
  \<comment> \<open>\<^verbatim>\<open>str\<close> of a float that stands for a number of hundredths, zero or more and
      below \<open>10 ^ 16\<close>, the only values the program stores: \<^verbatim>\<open>8.0\<close>, \<^verbatim>\<open>0.5\<close>,
      \<^verbatim>\<open>7.83\<close>\<close>
  "float_str x =
     (let h = nat \<lfloor>x * 100\<rfloor>
      in show_nat (h div 100) @ ''.'' @ show_nat (h mod 100 div 10)
           @ (if h mod 10 = 0 then [] else show_nat (h mod 10)))"

definition row_html :: "shift_change \<Rightarrow> string" where
  "row_html row =
     ''<tr>''
     @ ''<td>'' @ employee_name row @ ''</td>''
     @ ''<td>'' @ date row @ ''</td>''
     @ ''<td>'' @ start_time row @ ''</td>''
     @ ''<td>'' @ end_time row @ ''</td>''
     @ ''<td>'' @ rotation row @ ''</td>''
     @ ''<td>'' @ float_str (total_hours row) @ ''</td>''
     @ ''<td>'' @ comment row @ ''</td>''
     @ ''</tr>''"

definition no_records_row :: string where
  "no_records_row = ''<tr><td colspan='7'>Aucun enregistrement trouv'' @ [CHR 0xE9] @ ''.</td></tr>''"

definition simple_placeholders :: "(string \<times> context_value) list \<Rightarrow> string \<Rightarrow> string" where
  \<comment> \<open>the loop over \<^verbatim>\<open>context.items()\<close>\<close>
  "simple_placeholders context content =
     foldl (\<lambda>content (key, v).
              case v of
                Str s \<Rightarrow> replace (''{{ '' @ key @ '' }}'') s content
              | Rows _ \<Rightarrow> content)
           content context"

definition render_template ::
  "(string \<rightharpoonup> string) \<Rightarrow> string \<Rightarrow> (string \<times> context_value) list option \<Rightarrow> error + string"
where
  "render_template templates template_name context0 =
     (case templates template_name of
        None \<Rightarrow> Inl FileNotFoundError
      | Some content0 \<Rightarrow>
         (let context = (case context0 of None \<Rightarrow> [] | Some c \<Rightarrow> c);
              content = simple_placeholders context content0
          in case map_of context ''results'' of
               None \<Rightarrow> Inr content
             | Some (Rows results) \<Rightarrow>
                 if results \<noteq> []
                 then Inr (replace ''{{ results_table }}'' (concat (map row_html results)) content)
                 else Inr (replace ''{{ results_table }}'' no_records_row content)
             | Some (Str s) \<Rightarrow>
                 \<comment> \<open>the rows of a text are its characters, and indexing one by a name raises\<close>
                 if s \<noteq> [] then Inl TypeError
                 else Inr (replace ''{{ results_table }}'' no_records_row content)))"

subsection \<open>The request handler\<close>

record response =
  status :: string
  headers :: "(string \<times> string) list"
  body :: string

text \<open>
  \<open>application\<close> returns what the request produced, a response or the exception that
  ended it, and the database it leaves behind. The table is created before anything else
  is done, so it also exists after a request that fails.
\<close>

definition request_path :: "environ \<Rightarrow> string" where
  \<comment> \<open>\<^verbatim>\<open>environ.get("PATH_INFO", "/")\<close>\<close>
  "request_path env = (case PATH_INFO env of None \<Rightarrow> ''/'' | Some p \<Rightarrow> p)"

definition request_method :: "environ \<Rightarrow> string" where
  \<comment> \<open>\<^verbatim>\<open>environ.get("REQUEST_METHOD", "GET").upper()\<close>\<close>
  "request_method env = upper (case REQUEST_METHOD env of None \<Rightarrow> ''GET'' | Some m \<Rightarrow> m)"

definition application ::
  "(string \<Rightarrow> string) \<Rightarrow> (string \<rightharpoonup> string) \<Rightarrow> environ \<Rightarrow> database
     \<Rightarrow> (error + response) \<times> database"
where
  "application unquote templates env db0 =
     (let path = request_path env;
          method = request_method env;
          db = init_db db0
      in
      if path = ''/'' \<and> method \<in> {''GET'', ''POST''} then
        if method = ''POST'' then
          (let form = parse_post_data unquote env;
               name_v = strip (get form ''employee_name'' '''');
               date_v = get form ''date'' '''';
               start_v = get form ''start_time'' '''';
               end_v = get form ''end_time'' '''';
               rotation_v = get form ''rotation'' '''';
               comment_v = strip (get form ''comment'' '''')
           in case compute_total_hours start_v end_v of
                Inl e \<Rightarrow> (Inl e, db)
              | Inr hours \<Rightarrow>
                 (case db_insert (name_v, date_v, start_v, end_v, rotation_v, hours, comment_v) db of
                    Inl e \<Rightarrow> (Inl e, db)
                  | Inr db' \<Rightarrow>
                     (Inr \<lparr>status = ''303 See Other'', headers = [(''Location'', ''/'')],
                           body = ''''\<rparr>, db')))
        else
          (case render_template templates ''index.html'' None of
             Inl e \<Rightarrow> (Inl e, db)
           | Inr page \<Rightarrow>
              (Inr \<lparr>status = ''200 OK'',
                    headers = [(''Content-Type'', ''text/html; charset=utf-8'')],
                    body = page\<rparr>, db))
      else if path = ''/search'' \<and> method \<in> {''GET'', ''POST''} then
        (case (if method = ''POST''
               then (case search_results unquote env db of
                       Inl e \<Rightarrow> Inl e | Inr rs \<Rightarrow> Inr (Some rs))
               else Inr None) of
           Inl e \<Rightarrow> (Inl e, db)
         | Inr results \<Rightarrow>
            (case render_template templates ''search.html''
                    (Some [(''results'', Rows (case results of None \<Rightarrow> [] | Some rs \<Rightarrow> rs))]) of
               Inl e \<Rightarrow> (Inl e, db)
             | Inr page \<Rightarrow>
                (Inr \<lparr>status = ''200 OK'',
                      headers = [(''Content-Type'', ''text/html; charset=utf-8'')],
                      body = page\<rparr>, db)))
      else
        (Inr \<lparr>status = ''404 Not Found'',
              headers = [(''Content-Type'', ''text/plain; charset=utf-8'')],
              body = ''404 Not Found''\<rparr>, db))"

text \<open>
  The states of the system: it starts without a table, and every request, whatever it is
  and whatever it meets outside the program, leads from one state to the next.
\<close>

inductive reachable :: "database \<Rightarrow> bool" where
  start: "reachable None"
| request: "reachable db \<Longrightarrow> reachable (snd (application unquote templates env db))"

text \<open>Requests and surroundings for the examples.\<close>

definition post_request :: "string \<Rightarrow> string \<Rightarrow> environ" where
  \<comment> \<open>a \<^verbatim>\<open>POST\<close> to a path with a body, its length declared\<close>
  "post_request path content =
     \<lparr>PATH_INFO = Some path, REQUEST_METHOD = Some ''POST'',
      CONTENT_LENGTH = Some (length content), wsgi_input = content\<rparr>"

definition example_templates :: "string \<rightharpoonup> string" where
  "example_templates template_name =
     (if template_name = ''index.html'' then Some ''<form method=post></form>''
      else if template_name = ''search.html'' then Some ''<table>{{ results_table }}</table>''
      else None)"

section \<open>Lemmas about the model\<close>

lemma digit_val_le: "is_digit c \<Longrightarrow> digit_val c \<le> 9"
  by (auto simp: is_digit_def digit_val_def)

lemma list_shape:
  obtains "s = []" | a where "s = [a]" | a b r where "s = a # b # r"
  by (cases s; cases "tl s") auto

lemma hour_alternatives_bound:
  assumes "(h, r) \<in> set (hour_alternatives s)"
  shows "h < 24"
proof (cases s rule: list_shape)
  case 1
  with assms show ?thesis by (simp add: hour_alternatives_def)
next
  case (2 a)
  with assms show ?thesis
    by (auto simp: hour_alternatives_def digit_val_def is_digit_def split: if_splits)
next
  case (3 a b r')
  with assms have "(h = 20 + digit_val b \<and> b \<in> set ''0123'')
      \<or> (h = 10 * digit_val a + digit_val b \<and> a \<in> set ''01'' \<and> is_digit b)
      \<or> (h = digit_val a \<and> is_digit a)"
    by (auto simp: hour_alternatives_def split: if_splits)
  then show ?thesis
    by (auto simp: digit_val_def is_digit_def)
qed

lemma minute_alternatives_bound:
  assumes "(m, r) \<in> set (minute_alternatives s)"
  shows "m < 60"
proof (cases s rule: list_shape)
  case 1
  with assms show ?thesis by (simp add: minute_alternatives_def)
next
  case (2 a)
  with assms show ?thesis
    by (auto simp: minute_alternatives_def digit_val_def is_digit_def split: if_splits)
next
  case (3 a b r')
  with assms have "(m = 10 * digit_val a + digit_val b \<and> a \<in> set ''012345'' \<and> is_digit b)
      \<or> (m = digit_val a \<and> is_digit a)"
    by (auto simp: minute_alternatives_def split: if_splits)
  then show ?thesis
    by (auto simp: digit_val_def is_digit_def)
qed

lemma strptime_HM_fields:
  assumes "strptime_HM s = Inr d"
  shows "year d = 1900 \<and> month d = 1 \<and> day d = 1 \<and> hour d < 24 \<and> minute d < 60 \<and> second d = 0"
proof -
  let ?ms = "concat (map (\<lambda>(h, r). case r of
                              c # r' \<Rightarrow>
                                if c = CHR '':''
                                then map (\<lambda>(m, r''). (h, m, r'')) (minute_alternatives r')
                                else []
                            | [] \<Rightarrow> [])
                        (hour_alternatives s))"
  from assms obtain h m rest ms where ms: "?ms = (h, m, rest) # ms"
    and d: "d = \<lparr>year = 1900, month = 1, day = 1, hour = h, minute = m, second = 0\<rparr>"
    by (auto simp: strptime_HM_def split: list.splits if_splits)
  have "(h, m, rest) \<in> set ?ms" unfolding ms by simp
  then have "\<exists>r r'. (h, r) \<in> set (hour_alternatives s) \<and> (m, rest) \<in> set (minute_alternatives r')"
    by (fastforce split: list.splits if_splits)
  then obtain r r' where "(h, r) \<in> set (hour_alternatives s)" "(m, rest) \<in> set (minute_alternatives r')"
    by blast
  then have "h < 24" "m < 60"
    by (auto dest: hour_alternatives_bound minute_alternatives_bound)
  with d show ?thesis by simp
qed

lemma round_half_even_near: "\<bar>of_int (round_half_even x) - x\<bar> \<le> 1 / 2"
proof -
  have "of_int \<lfloor>x\<rfloor> \<le> x" "x < of_int \<lfloor>x\<rfloor> + 1" by linarith+
  then show ?thesis
    by (auto simp: round_half_even_def Let_def)
qed

lemma py_round2_near: "\<bar>py_round2 x - x\<bar> \<le> 1 / 200"
proof -
  have "\<bar>of_int (round_half_even (x * 100)) - x * 100\<bar> \<le> 1 / 2"
    by (rule round_half_even_near)
  then show ?thesis
    unfolding py_round2_def by (simp add: field_simps abs_le_iff)
qed

lemma round_half_even_nonneg: "0 \<le> x \<Longrightarrow> 0 \<le> round_half_even x"
  by (auto simp: round_half_even_def Let_def)

lemma py_round2_nonneg: "0 \<le> x \<Longrightarrow> 0 \<le> py_round2 x"
  by (simp add: py_round2_def round_half_even_nonneg)

lemma compute_total_hours_parsed:
  assumes s: "strptime_HM st = Inr s" and e: "strptime_HM et = Inr e"
  shows "compute_total_hours st et =
           Inr (py_round2 (of_int (if seconds_of_day s < seconds_of_day e
                                   then seconds_of_day e - seconds_of_day s
                                   else seconds_of_day e + 86400 - seconds_of_day s) / 3600))"
proof -
  note fs = strptime_HM_fields [OF s] and fe = strptime_HM_fields [OF e]
  have le: "dt_le e s \<longleftrightarrow> \<not> seconds_of_day s < seconds_of_day e"
    using fs fe by (auto simp: dt_le_def seconds_of_day_def)
  have ord: "toordinal (e\<lparr>day := 2\<rparr>) = Suc (toordinal s)"
    using fs fe by (simp add: toordinal_def)
  have rep: "replace_day e (day e + 1) = Inr (e\<lparr>day := 2\<rparr>)"
    using fe by (simp add: replace_day_def days_in_month_def)
  show ?thesis
  proof (cases "seconds_of_day s < seconds_of_day e")
    case True
    with le have "\<not> dt_le e s" by simp
    moreover have "total_seconds e s = seconds_of_day e - seconds_of_day s"
      using fs fe by (simp add: total_seconds_def toordinal_def)
    ultimately show ?thesis using True by (simp add: compute_total_hours_def s e)
  next
    case False
    with le have "dt_le e s" by simp
    moreover have "total_seconds (e\<lparr>day := 2\<rparr>) s = seconds_of_day e + 86400 - seconds_of_day s"
      using ord by (simp add: total_seconds_def seconds_of_day_def)
    ultimately show ?thesis using False rep by (simp add: compute_total_hours_def s e)
  qed
qed

lemma strptime_0900:
  "strptime_HM ''09:00'' = Inr \<lparr>year = 1900, month = 1, day = 1, hour = 9, minute = 0, second = 0\<rparr>"
  by code_simp

lemma strptime_1700:
  "strptime_HM ''17:00'' = Inr \<lparr>year = 1900, month = 1, day = 1, hour = 17, minute = 0, second = 0\<rparr>"
  by code_simp

lemma strptime_2200:
  "strptime_HM ''22:00'' = Inr \<lparr>year = 1900, month = 1, day = 1, hour = 22, minute = 0, second = 0\<rparr>"
  by code_simp

lemma strptime_0600:
  "strptime_HM ''06:00'' = Inr \<lparr>year = 1900, month = 1, day = 1, hour = 6, minute = 0, second = 0\<rparr>"
  by code_simp

lemma py_round2_8: "py_round2 8 = 8"
  by code_simp

lemma py_round2_24: "py_round2 24 = 24"
  by code_simp

lemma compute_0900_1700: "compute_total_hours ''09:00'' ''17:00'' = Inr 8"
  using compute_total_hours_parsed [OF strptime_0900 strptime_1700] py_round2_8
  by (simp add: seconds_of_day_def)

lemma compute_2200_0600: "compute_total_hours ''22:00'' ''06:00'' = Inr 8"
  using compute_total_hours_parsed [OF strptime_2200 strptime_0600] py_round2_8
  by (simp add: seconds_of_day_def)

lemma compute_0900_0900: "compute_total_hours ''09:00'' ''09:00'' = Inr 24"
  using compute_total_hours_parsed [OF strptime_0900 strptime_0900] py_round2_24
  by (simp add: seconds_of_day_def)

lemma init_db_Some: "init_db db = Some (table_rows db)"
  by (cases db) (simp_all add: init_db_def table_rows_def)

lemma table_rows_init_db: "table_rows (init_db db) = table_rows db"
  by (simp add: init_db_Some table_rows_def)

lemma application_post_root:
  assumes "request_path env = ''/''" and "request_method env = ''POST''"
  shows "application unq tpl env db =
           (case compute_total_hours (get (parse_post_data unq env) ''start_time'' '''')
                                     (get (parse_post_data unq env) ''end_time'' '''') of
              Inl e \<Rightarrow> (Inl e, init_db db)
            | Inr h \<Rightarrow>
               (Inr \<lparr>status = ''303 See Other'', headers = [(''Location'', ''/'')], body = ''''\<rparr>,
                Some (table_rows db @
                  [\<lparr>row_id = Suc (foldr max (map row_id (table_rows db)) 0),
                    employee_name = strip (get (parse_post_data unq env) ''employee_name'' ''''),
                    date = get (parse_post_data unq env) ''date'' '''',
                    start_time = get (parse_post_data unq env) ''start_time'' '''',
                    end_time = get (parse_post_data unq env) ''end_time'' '''',
                    rotation = get (parse_post_data unq env) ''rotation'' '''',
                    total_hours = h,
                    comment = strip (get (parse_post_data unq env) ''comment'' '''')\<rparr>])))"
  using assms
  by (simp add: application_def Let_def init_db_Some db_insert_def split: sum.splits)

lemma application_post_search:
  assumes "request_path env = ''/search''" and "request_method env = ''POST''"
  shows "application unq tpl env db =
           (case search_results unq env (init_db db) of
              Inl e \<Rightarrow> (Inl e, init_db db)
            | Inr rs \<Rightarrow>
               (case render_template tpl ''search.html'' (Some [(''results'', Rows rs)]) of
                  Inl e \<Rightarrow> (Inl e, init_db db)
                | Inr page \<Rightarrow>
                   (Inr \<lparr>status = ''200 OK'',
                         headers = [(''Content-Type'', ''text/html; charset=utf-8'')],
                         body = page\<rparr>, init_db db)))"
  using assms
  by (simp add: application_def Let_def split: sum.splits)

lemma application_rows:
  "table_rows (snd (application unq tpl env db)) = table_rows db
   \<or> (\<exists>st et h r. compute_total_hours st et = Inr h \<and> total_hours r = h
         \<and> table_rows (snd (application unq tpl env db)) = table_rows db @ [r])"
  by (auto simp: application_def Let_def init_db_Some db_insert_def table_rows_def
           split: sum.splits)

lemma first_match_error:
  "(case ms of [] \<Rightarrow> Inl ValueError
    | (h, m, rest) # _ \<Rightarrow> if rest = [] then Inr (f h m) else Inl ValueError) = Inl err
   \<Longrightarrow> err = ValueError"
  by (cases ms) (auto split: if_splits)

lemma strptime_HM_Inl: "strptime_HM s = Inl err \<Longrightarrow> err = ValueError"
  unfolding strptime_HM_def by (erule first_match_error)

lemma strptime_HM_error: "isl (strptime_HM s) \<Longrightarrow> strptime_HM s = Inl ValueError"
  by (cases "strptime_HM s") (auto dest: strptime_HM_Inl)

lemma compute_total_hours_malformed:
  assumes "isl (strptime_HM st) \<or> isl (strptime_HM et)"
  shows "compute_total_hours st et = Inl ValueError"
  using assms strptime_HM_error [of st] strptime_HM_error [of et]
  by (auto simp: compute_total_hours_def split: sum.splits)

lemma compute_total_hours_Inr:
  assumes "compute_total_hours st et = Inr h"
  shows "\<exists>s e. strptime_HM st = Inr s \<and> strptime_HM et = Inr e"
  using assms by (auto simp: compute_total_hours_def split: sum.splits)

lemma seconds_of_day_bounds:
  assumes "strptime_HM st = Inr s"
  shows "0 \<le> seconds_of_day s \<and> seconds_of_day s < 86400"
  using strptime_HM_fields [OF assms] by (simp add: seconds_of_day_def)

lemma compute_total_hours_nonneg:
  assumes "compute_total_hours st et = Inr h"
  shows "0 \<le> h"
proof -
  from compute_total_hours_Inr [OF assms] obtain s e
    where s: "strptime_HM st = Inr s" and e: "strptime_HM et = Inr e" by blast
  define secs where "secs = (if seconds_of_day s < seconds_of_day e
                      then seconds_of_day e - seconds_of_day s
                      else seconds_of_day e + 86400 - seconds_of_day s)"
  have "0 \<le> secs"
    using seconds_of_day_bounds [OF s] seconds_of_day_bounds [OF e] by (simp add: secs_def)
  then have "0 \<le> py_round2 (of_int secs / 3600)"
    by (intro py_round2_nonneg) simp
  moreover have "h = py_round2 (of_int secs / 3600)"
    using compute_total_hours_parsed [OF s e] assms by (simp only: secs_def) simp
  ultimately show ?thesis by simp
qed

lemma compute_total_hours_returns:
  assumes "strptime_HM st = Inr s" and "strptime_HM et = Inr e"
  shows "\<exists>h. compute_total_hours st et = Inr h \<and> 0 \<le> h"
proof -
  from compute_total_hours_parsed [OF assms] obtain h where "compute_total_hours st et = Inr h"
    by blast
  then show ?thesis using compute_total_hours_nonneg by blast
qed

lemma reachable_nonneg:
  "reachable db \<Longrightarrow> \<forall>r\<in>set (table_rows db). 0 \<le> total_hours r"
proof (induction rule: reachable.induct)
  case start
  show ?case by (simp add: table_rows_def)
next
  case (request db unquote templates env)
  from application_rows [of unquote templates env db] show ?case
  proof
    assume "table_rows (snd (application unquote templates env db)) = table_rows db"
    with request.IH show ?thesis by simp
  next
    assume "\<exists>st et h r. compute_total_hours st et = Inr h \<and> total_hours r = h
         \<and> table_rows (snd (application unquote templates env db)) = table_rows db @ [r]"
    then obtain st et h r where "compute_total_hours st et = Inr h" "total_hours r = h"
      and rows: "table_rows (snd (application unquote templates env db)) = table_rows db @ [r]"
      by blast
    then have "0 \<le> total_hours r" using compute_total_hours_nonneg by blast
    with request.IH rows show ?thesis by simp
  qed
qed

lemma init_db_funpow: "(init_db ^^ n) (Some rows) = Some rows"
  by (induction n) (simp_all add: init_db_def)

lemma upper_POST: "upper ''POST'' = ''POST''"
  by code_simp

lemma post_request_path: "request_path (post_request p b) = p"
  by (simp add: request_path_def post_request_def)

lemma post_request_method: "request_method (post_request p b) = ''POST''"
  by (simp add: request_method_def post_request_def upper_POST)

lemma post_request_body: "request_body (post_request p b) = b"
  by (simp add: request_body_def post_request_def)

lemma parse_qs_fold:
  "foldl (\<lambda>parsed_result (name, v).
            case parsed_result name of
              Some vs \<Rightarrow> parsed_result(name \<mapsto> vs @ [v])
            | None \<Rightarrow> parsed_result(name \<mapsto> [v])) d pairs k
   = (case d k of
        Some vs \<Rightarrow> Some (vs @ map snd (filter (\<lambda>(n, v). n = k) pairs))
      | None \<Rightarrow> (case map snd (filter (\<lambda>(n, v). n = k) pairs) of
                   [] \<Rightarrow> None | v # vs \<Rightarrow> Some (v # vs)))"
proof (induction pairs arbitrary: d)
  case Nil
  show ?case by (simp split: option.splits)
next
  case (Cons p pairs)
  obtain n v where p: "p = (n, v)" by (cases p)
  show ?case
    by (cases "d n"; cases "d k") (auto simp: p Cons.IH split: option.splits list.splits)
qed

lemma parse_post_data_first:
  "parse_post_data unquote env k =
     (case filter (\<lambda>(n, v). n = k) (parse_qsl unquote (request_body env)) of
        [] \<Rightarrow> None | (n, v) # _ \<Rightarrow> Some v)"
  by (simp add: parse_post_data_def parse_qs_def parse_qs_fold split: list.splits)

lemma parse_qsl_fields:
  "parse_qsl unquote qs =
     map (\<lambda>f. (unquote (replace ''+'' '' '' (takeWhile (\<lambda>c. c \<noteq> CHR ''='') f)),
               unquote (replace ''+'' '' '' (tl (dropWhile (\<lambda>c. c \<noteq> CHR ''='') f)))))
         (filter (\<lambda>f. CHR ''='' \<in> set f \<and> tl (dropWhile (\<lambda>c. c \<noteq> CHR ''='') f) \<noteq> [])
                 (split_on CHR ''&'' qs))"
proof -
  have "concat (map g fs) = map h (filter P fs)"
    if "\<And>f. g f = (if P f then [h f] else [])" for g :: "string \<Rightarrow> (string \<times> string) list"
      and h P and fs :: "string list"
    using that by (induction fs) simp_all
  then show ?thesis
    unfolding parse_qsl_def
    by (rule) (auto simp: split_once_def)
qed

lemma strptime_empty: "strptime_HM '''' = Inl ValueError"
  by code_simp

lemma strip_empty: "strip '''' = ''''"
  by (simp add: strip_def)

lemma mset_insort_by: "mset (insort_by le x xs) = add_mset x (mset xs)"
  by (induction xs) simp_all

lemma mset_order_by: "mset (order_by le xs) = mset xs"
  unfolding order_by_def by (induction xs) (simp_all add: mset_insort_by)

lemma set_order_by: "set (order_by le xs) = set xs"
  by (metis mset_order_by set_mset_mset)

lemma set_insort_by: "set (insort_by le x xs) = insert x (set xs)"
  by (metis mset_insort_by set_mset_mset set_mset_add_mset_insert)

lemma sorted_insort_by:
  assumes total: "\<And>a b. le a b \<or> le b a"
    and trans: "\<And>a b c. le a b \<Longrightarrow> le b c \<Longrightarrow> le a c"
  shows "sorted_wrt le xs \<Longrightarrow> sorted_wrt le (insort_by le x xs)"
proof (induction xs)
  case Nil
  show ?case by simp
next
  case (Cons y ys)
  show ?case
  proof (cases "le x y")
    case True
    with Cons.prems show ?thesis by (auto intro: trans [of x y])
  next
    case False
    with total have "le y x" by blast
    with Cons False show ?thesis by (auto simp: set_insort_by)
  qed
qed

lemma sorted_order_by:
  assumes "\<And>a b. le a b \<or> le b a"
    and "\<And>a b c. le a b \<Longrightarrow> le b c \<Longrightarrow> le a c"
  shows "sorted_wrt le (order_by le xs)"
  unfolding order_by_def
  by (induction xs) (simp_all add: sorted_insort_by [OF assms])

lemma order_le_total: "order_le a b \<or> order_le b a"
  by (auto simp: order_le_def)

lemma order_le_trans: "order_le a b \<Longrightarrow> order_le b c \<Longrightarrow> order_le a c"
  by (auto simp: order_le_def)

lemma sorted_order_le: "sorted_wrt order_le (order_by order_le xs)"
  by (rule sorted_order_by [OF order_le_total order_le_trans])

lemma search_results_eq:
  "search_results unquote env (Some rows) =
     Inr (order_by order_le
            (filter (\<lambda>r. (strip (get (parse_post_data unquote env) ''employee_name'' '''') \<noteq> []
                           \<longrightarrow> like (''%'' @ strip (get (parse_post_data unquote env) ''employee_name'' '''') @ ''%'')
                                   (employee_name r))
                        \<and> (strip (get (parse_post_data unquote env) ''date'' '''') \<noteq> []
                           \<longrightarrow> date r = strip (get (parse_post_data unquote env) ''date'' '''')))
                    rows))"
  by (simp add: search_results_def db_select_def Let_def cong: filter_cong)

lemma like_percent: "like ''%'' s"
  by (induction s) simp_all

lemma like_skip: "like (CHR ''%'' # q) s \<longleftrightarrow> (\<exists>pre t. s = pre @ t \<and> like q t)"
proof (induction s)
  case Nil
  show ?case by simp
next
  case (Cons c cs)
  show ?case
  proof
    assume "like (CHR ''%'' # q) (c # cs)"
    then consider "like q (c # cs)" | "like (CHR ''%'' # q) cs" by auto
    then show "\<exists>pre t. c # cs = pre @ t \<and> like q t"
    proof cases
      case 1
      then show ?thesis by (intro exI [of _ "[]"] exI [of _ "c # cs"]) simp
    next
      case 2
      with Cons.IH obtain pre t where "cs = pre @ t" "like q t" by blast
      then show ?thesis by (intro exI [of _ "c # pre"] exI [of _ t]) simp
    qed
  next
    assume "\<exists>pre t. c # cs = pre @ t \<and> like q t"
    then obtain pre t where eq: "c # cs = pre @ t" and q: "like q t" by blast
    show "like (CHR ''%'' # q) (c # cs)"
    proof (cases pre)
      case Nil
      with eq have "t = c # cs" by simp
      with q have "like q (c # cs)" by simp
      then show ?thesis by simp
    next
      case (Cons p pre')
      with eq have "cs = pre' @ t" by simp
      with q Cons.IH have "like (CHR ''%'' # q) cs" by blast
      then show ?thesis by simp
    qed
  qed
qed


lemma like_self_prefix: "like (f @ ''%'') (f @ rest)"
proof (induction f)
  case Nil
  show ?case using like_percent by simp
next
  case (Cons p ps)
  show ?case
  proof (cases "p = CHR ''%''")
    case True
    have "like (CHR ''%'' # ps @ ''%'') (ps @ rest)"
      unfolding like_skip using Cons.IH by (intro exI [of _ "[]"] exI [of _ "ps @ rest"]) simp
    then show ?thesis using True by simp
  next
    case False
    then show ?thesis using Cons.IH by simp
  qed
qed

lemma like_contains_sublist:
  assumes "sublist f s"
  shows "like (''%'' @ f @ ''%'') s"
proof -
  from assms obtain pre post where "s = pre @ f @ post" by (auto simp: sublist_def)
  then show ?thesis
    using like_self_prefix [of f post] by (auto simp: like_skip)
qed


lemma sublist_strip: "sublist (strip s) s"
proof -
  have "prefix (rev (dropWhile is_space (rev t))) t" for t
  proof -
    have "t = rev (takeWhile is_space (rev t) @ dropWhile is_space (rev t))" by simp
    then have "t = rev (dropWhile is_space (rev t)) @ rev (takeWhile is_space (rev t))"
      by (simp only: rev_append)
    then show ?thesis by (metis prefixI)
  qed
  then have "sublist (strip s) (dropWhile is_space s)"
    unfolding strip_def by (intro prefix_imp_sublist)
  moreover have "sublist (dropWhile is_space s) s"
    by (intro suffix_imp_sublist suffix_dropWhile)
  ultimately show ?thesis
    by (rule sublist_order.order.trans)
qed

lemma search_results_init_db:
  "search_results unquote env (init_db db) =
     Inr (order_by order_le
            (filter (\<lambda>r. (strip (get (parse_post_data unquote env) ''employee_name'' '''') \<noteq> []
                           \<longrightarrow> like (''%'' @ strip (get (parse_post_data unquote env) ''employee_name'' '''') @ ''%'')
                                   (employee_name r))
                        \<and> (strip (get (parse_post_data unquote env) ''date'' '''') \<noteq> []
                           \<longrightarrow> date r = strip (get (parse_post_data unquote env) ''date'' '''')))
                    (table_rows db)))"
  by (simp only: init_db_Some search_results_eq)

lemma order_le_unfold:
  "order_le = (\<lambda>a b. date b < date a \<or> (date a = date b \<and> start_time a \<le> start_time b))"
  by (intro ext) (simp add: order_le_def)


lemma strip_Alice: "strip '' Alice '' = ''Alice''" by code_simp
lemma strip_lic: "strip ''lic'' = ''lic''" by code_simp
lemma strip_Bob: "strip ''Bob'' = ''Bob''" by code_simp
lemma strip_zed: "strip ''zed'' = ''zed''" by code_simp
lemma strip_date_0102: "strip ''2024-01-02'' = ''2024-01-02''" by code_simp
lemma strip_date_0103_space: "strip ''2024-01-03 '' = ''2024-01-03''" by code_simp

lemma parse_qsl_insert_Alice:
  "parse_qsl id ''employee_name=+Alice+&date=2024-01-02&start_time=09:00&end_time=17:00''
     = [(''employee_name'', '' Alice ''), (''date'', ''2024-01-02''),
        (''start_time'', ''09:00''), (''end_time'', ''17:00'')]"
  by code_simp

lemma parse_qsl_search_lic:
  "parse_qsl id ''employee_name=lic&date=2024-01-02''
     = [(''employee_name'', ''lic''), (''date'', ''2024-01-02'')]"
  by code_simp

lemma parse_qsl_insert_Bob:
  "parse_qsl id ''employee_name=Bob&date=2024-01-03+&start_time=22:00&end_time=06:00''
     = [(''employee_name'', ''Bob''), (''date'', ''2024-01-03 ''),
        (''start_time'', ''22:00''), (''end_time'', ''06:00'')]"
  by code_simp

lemma parse_qsl_search_Bob:
  "parse_qsl id ''employee_name=Bob&date=2024-01-03+''
     = [(''employee_name'', ''Bob''), (''date'', ''2024-01-03 '')]"
  by code_simp

lemma parse_qsl_search_zed:
  "parse_qsl id ''employee_name=zed'' = [(''employee_name'', ''zed'')]"
  by code_simp

lemma parse_qsl_empty: "parse_qsl id '''' = []"
  by code_simp

lemma like_Bob: "like (''%'' @ ''Bob'' @ ''%'') ''Bob''" by code_simp
lemma not_like_zed_Alice: "\<not> like (''%'' @ ''zed'' @ ''%'') ''Alice''" by code_simp
lemma not_like_zed_Bob: "\<not> like (''%'' @ ''zed'' @ ''%'') ''Bob''" by code_simp
lemma sublist_lic_Alice: "sublist ''lic'' ''Alice''" by code_simp

section \<open>The claims\<close>

subsection \<open>Duration computation\<close>

text \<open>
  C1. For two texts that \<^verbatim>\<open>strptime\<close> parses with the format \<^verbatim>\<open>%H:%M\<close>,
  \<open>compute_total_hours\<close> returns the seconds from start to end, divided by 3600 and
  rounded to two decimal places (a whole number of hundredths, at most half a hundredth
  away), where the end is taken as it is when it is strictly after the start and one day
  (86400 seconds) later when it is at or before the start. From 09:00 to 17:00 that is
  8.0, from 22:00 to 06:00 it is 8.0, and from 09:00 to 09:00 it is 24.0.
\<close>

theorem compute_total_hours_correct:
  assumes "strptime_HM st = Inr s" and "strptime_HM et = Inr e"
  shows "(let secs = (if seconds_of_day s < seconds_of_day e
                      then seconds_of_day e - seconds_of_day s
                      else seconds_of_day e + 86400 - seconds_of_day s);
              h = py_round2 (of_int secs / 3600)
          in compute_total_hours st et = Inr h
             \<and> \<bar>h - of_int secs / 3600\<bar> \<le> 1 / 200
             \<and> h = of_int (round_half_even (of_int secs / 3600 * 100)) / 100)
         \<and> compute_total_hours ''09:00'' ''17:00'' = Inr 8
         \<and> compute_total_hours ''22:00'' ''06:00'' = Inr 8
         \<and> compute_total_hours ''09:00'' ''09:00'' = Inr 24"
proof -
  define secs where "secs = (if seconds_of_day s < seconds_of_day e
                      then seconds_of_day e - seconds_of_day s
                      else seconds_of_day e + 86400 - seconds_of_day s)"
  have 1: "compute_total_hours st et = Inr (py_round2 (of_int secs / 3600))"
    using compute_total_hours_parsed [OF assms] by (simp only: secs_def)
  have 2: "\<bar>py_round2 (of_int secs / 3600) - of_int secs / 3600\<bar> \<le> 1 / 200"
    by (rule py_round2_near)
  have 3: "py_round2 (of_int secs / 3600)
             = of_int (round_half_even (of_int secs / 3600 * 100)) / 100"
    by (simp only: py_round2_def)
  show ?thesis
    using 1 2 3 compute_0900_1700 compute_2200_0600 compute_0900_0900
    unfolding secs_def Let_def by blast
qed

theorem compute_total_hours_correct_witness:
  "strptime_HM ''22:00'' = Inr \<lparr>year = 1900, month = 1, day = 1, hour = 22, minute = 0, second = 0\<rparr>
   \<and> strptime_HM ''06:00'' = Inr \<lparr>year = 1900, month = 1, day = 1, hour = 6, minute = 0, second = 0\<rparr>
   \<and> compute_total_hours ''22:00'' ''06:00'' = Inr (py_round2 (of_int (21600 + 86400 - 79200) / 3600))"
  using compute_total_hours_correct [OF strptime_2200 strptime_0600] strptime_2200 strptime_0600
  by (simp add: seconds_of_day_def Let_def)

subsection \<open>Search filters\<close>




subsection \<open>Malformed times\<close>



subsection \<open>Insert, then search\<close>

text \<open>
  C4, as amended. A \<^verbatim>\<open>POST /\<close> with times that parse stores a row. A
  \<^verbatim>\<open>POST /search\<close> after it, whose employee-name filter is a substring of the stored
  (trimmed) employee name and whose date filter equals the stored date, that date having
  no white space at its start or end, returns that row: employee name and comment as
  trimmed at the insertion, date, start time, end time and rotation as submitted, and
  \<open>total_hours\<close> as computed from the two times at the insertion.
\<close>

theorem insert_then_search:
  assumes "request_path env1 = ''/''" and "request_method env1 = ''POST''"
    and "strptime_HM (get (parse_post_data unquote env1) ''start_time'' '''') = Inr s"
    and "strptime_HM (get (parse_post_data unquote env1) ''end_time'' '''') = Inr e"
    and "request_path env2 = ''/search''" and "request_method env2 = ''POST''"
    and "sublist (get (parse_post_data unquote env2) ''employee_name'' '''')
                 (strip (get (parse_post_data unquote env1) ''employee_name'' ''''))"
    and "get (parse_post_data unquote env2) ''date'' '''' = get (parse_post_data unquote env1) ''date'' ''''"
    and "strip (get (parse_post_data unquote env1) ''date'' '''') = get (parse_post_data unquote env1) ''date'' ''''"
  shows "\<exists>h db1 rs row.
           compute_total_hours (get (parse_post_data unquote env1) ''start_time'' '''')
                               (get (parse_post_data unquote env1) ''end_time'' '''') = Inr h
         \<and> application unquote templates env1 db =
               (Inr \<lparr>status = ''303 See Other'', headers = [(''Location'', ''/'')], body = ''''\<rparr>, db1)
         \<and> search_results unquote env2 (init_db db1) = Inr rs
         \<and> application unquote templates env2 db1 =
               (case render_template templates ''search.html'' (Some [(''results'', Rows rs)]) of
                  Inl e \<Rightarrow> (Inl e, init_db db1)
                | Inr page \<Rightarrow>
                   (Inr \<lparr>status = ''200 OK'',
                         headers = [(''Content-Type'', ''text/html; charset=utf-8'')],
                         body = page\<rparr>, init_db db1))
         \<and> row \<in> set rs
         \<and> employee_name row = strip (get (parse_post_data unquote env1) ''employee_name'' '''')
         \<and> date row = get (parse_post_data unquote env1) ''date'' ''''
         \<and> start_time row = get (parse_post_data unquote env1) ''start_time'' ''''
         \<and> end_time row = get (parse_post_data unquote env1) ''end_time'' ''''
         \<and> rotation row = get (parse_post_data unquote env1) ''rotation'' ''''
         \<and> comment row = strip (get (parse_post_data unquote env1) ''comment'' '''')
         \<and> total_hours row = h"
proof -
  let ?f1 = "parse_post_data unquote env1" and ?f2 = "parse_post_data unquote env2"
  from compute_total_hours_returns [OF assms(3,4)] obtain h
    where h: "compute_total_hours (get ?f1 ''start_time'' '''') (get ?f1 ''end_time'' '''') = Inr h"
    by blast
  define row where "row = \<lparr>row_id = Suc (foldr max (map row_id (table_rows db)) 0),
                    employee_name = strip (get ?f1 ''employee_name'' ''''),
                    date = get ?f1 ''date'' '''',
                    start_time = get ?f1 ''start_time'' '''',
                    end_time = get ?f1 ''end_time'' '''',
                    rotation = get ?f1 ''rotation'' '''',
                    total_hours = h,
                    comment = strip (get ?f1 ''comment'' '''')\<rparr>"
  define db1 where "db1 = Some (table_rows db @ [row])"
  define nf where "nf = strip (get ?f2 ''employee_name'' '''')"
  define df where "df = strip (get ?f2 ''date'' '''')"
  define rs where "rs = order_by order_le
            (filter (\<lambda>r. (nf \<noteq> [] \<longrightarrow> like (''%'' @ nf @ ''%'') (employee_name r))
                        \<and> (df \<noteq> [] \<longrightarrow> date r = df))
                    (table_rows db1))"
  have 1: "application unquote templates env1 db =
             (Inr \<lparr>status = ''303 See Other'', headers = [(''Location'', ''/'')], body = ''''\<rparr>, db1)"
    using application_post_root [OF assms(1,2), of unquote templates db]
    by (simp add: h db1_def row_def)
  have 2: "search_results unquote env2 (init_db db1) = Inr rs"
    unfolding rs_def nf_def df_def by (rule search_results_init_db)
  have 3: "application unquote templates env2 db1 =
               (case render_template templates ''search.html'' (Some [(''results'', Rows rs)]) of
                  Inl e \<Rightarrow> (Inl e, init_db db1)
                | Inr page \<Rightarrow>
                   (Inr \<lparr>status = ''200 OK'',
                         headers = [(''Content-Type'', ''text/html; charset=utf-8'')],
                         body = page\<rparr>, init_db db1))"
    using application_post_search [OF assms(5,6), of unquote templates db1] by (simp add: 2)
  have nf_sub: "sublist nf (get ?f2 ''employee_name'' '''')"
    unfolding nf_def by (rule sublist_strip)
  have "sublist nf (strip (get ?f1 ''employee_name'' ''''))"
    by (rule sublist_order.order.trans [OF nf_sub assms(7)])
  then have "sublist nf (employee_name row)"
    by (simp add: row_def)
  then have name_ok: "like (''%'' @ nf @ ''%'') (employee_name row)"
    by (rule like_contains_sublist)
  have date_ok: "date row = df"
    using assms(8,9) by (simp add: row_def df_def)
  have "row \<in> set (table_rows db1)"
    by (simp add: db1_def table_rows_def)
  with name_ok date_ok have 4: "row \<in> set rs"
    by (simp add: rs_def set_order_by)
  have 5: "employee_name row = strip (get ?f1 ''employee_name'' '''')
         \<and> date row = get ?f1 ''date'' ''''
         \<and> start_time row = get ?f1 ''start_time'' ''''
         \<and> end_time row = get ?f1 ''end_time'' ''''
         \<and> rotation row = get ?f1 ''rotation'' ''''
         \<and> comment row = strip (get ?f1 ''comment'' '''')
         \<and> total_hours row = h"
    by (simp add: row_def)
  from h 1 2 3 4 5 show ?thesis by blast
qed

theorem insert_then_search_witness:
  "request_path (post_request ''/'' ''employee_name=+Alice+&date=2024-01-02&start_time=09:00&end_time=17:00'') = ''/''
   \<and> request_method (post_request ''/'' ''employee_name=+Alice+&date=2024-01-02&start_time=09:00&end_time=17:00'') = ''POST''
   \<and> request_path (post_request ''/search'' ''employee_name=lic&date=2024-01-02'') = ''/search''
   \<and> request_method (post_request ''/search'' ''employee_name=lic&date=2024-01-02'') = ''POST''
   \<and> sublist (get (parse_post_data id (post_request ''/search'' ''employee_name=lic&date=2024-01-02''))
                  ''employee_name'' '''')
               (strip (get (parse_post_data id (post_request ''/''
                  ''employee_name=+Alice+&date=2024-01-02&start_time=09:00&end_time=17:00''))
                  ''employee_name'' ''''))
   \<and> get (parse_post_data id (post_request ''/search'' ''employee_name=lic&date=2024-01-02'')) ''date'' ''''
       = ''2024-01-02''
   \<and> (\<exists>db1 rs row.
          application id example_templates
             (post_request ''/'' ''employee_name=+Alice+&date=2024-01-02&start_time=09:00&end_time=17:00'')
             None
            = (Inr \<lparr>status = ''303 See Other'', headers = [(''Location'', ''/'')], body = ''''\<rparr>, db1)
        \<and> search_results id (post_request ''/search'' ''employee_name=lic&date=2024-01-02'') (init_db db1)
            = Inr rs
        \<and> row \<in> set rs
        \<and> employee_name row = ''Alice'' \<and> date row = ''2024-01-02''
        \<and> start_time row = ''09:00'' \<and> end_time row = ''17:00''
        \<and> rotation row = '''' \<and> comment row = '''' \<and> total_hours row = 8)"
proof -
  let ?env1 = "post_request ''/'' ''employee_name=+Alice+&date=2024-01-02&start_time=09:00&end_time=17:00''"
  let ?env2 = "post_request ''/search'' ''employee_name=lic&date=2024-01-02''"
  note ev = get_def parse_post_data_first post_request_body parse_qsl_insert_Alice
    parse_qsl_search_lic
  have n1: "strip (get (parse_post_data id ?env1) ''employee_name'' '''') = ''Alice''"
    by (simp add: ev strip_Alice)
  have d1: "get (parse_post_data id ?env1) ''date'' '''' = ''2024-01-02''"
    by (simp add: ev)
  have s1: "get (parse_post_data id ?env1) ''start_time'' '''' = ''09:00''"
    by (simp add: ev)
  have e1: "get (parse_post_data id ?env1) ''end_time'' '''' = ''17:00''"
    by (simp add: ev)
  have r1: "get (parse_post_data id ?env1) ''rotation'' '''' = ''''"
    by (simp add: ev)
  have c1: "strip (get (parse_post_data id ?env1) ''comment'' '''') = ''''"
    by (simp add: ev strip_empty)
  have n2: "get (parse_post_data id ?env2) ''employee_name'' '''' = ''lic''"
    by (simp add: ev)
  have d2: "get (parse_post_data id ?env2) ''date'' '''' = ''2024-01-02''"
    by (simp add: ev)
  have "\<exists>h db1 rs row.
           compute_total_hours (get (parse_post_data id ?env1) ''start_time'' '''')
                               (get (parse_post_data id ?env1) ''end_time'' '''') = Inr h
         \<and> application id example_templates ?env1 None =
               (Inr \<lparr>status = ''303 See Other'', headers = [(''Location'', ''/'')], body = ''''\<rparr>, db1)
         \<and> search_results id ?env2 (init_db db1) = Inr rs
         \<and> application id example_templates ?env2 db1 =
               (case render_template example_templates ''search.html'' (Some [(''results'', Rows rs)]) of
                  Inl e \<Rightarrow> (Inl e, init_db db1)
                | Inr page \<Rightarrow>
                   (Inr \<lparr>status = ''200 OK'',
                         headers = [(''Content-Type'', ''text/html; charset=utf-8'')],
                         body = page\<rparr>, init_db db1))
         \<and> row \<in> set rs
         \<and> employee_name row = strip (get (parse_post_data id ?env1) ''employee_name'' '''')
         \<and> date row = get (parse_post_data id ?env1) ''date'' ''''
         \<and> start_time row = get (parse_post_data id ?env1) ''start_time'' ''''
         \<and> end_time row = get (parse_post_data id ?env1) ''end_time'' ''''
         \<and> rotation row = get (parse_post_data id ?env1) ''rotation'' ''''
         \<and> comment row = strip (get (parse_post_data id ?env1) ''comment'' '''')
         \<and> total_hours row = h"
  proof (rule insert_then_search)
    show "request_path ?env1 = ''/''" by (rule post_request_path)
    show "request_method ?env1 = ''POST''" by (rule post_request_method)
    show "strptime_HM (get (parse_post_data id ?env1) ''start_time'' '''')
            = Inr \<lparr>year = 1900, month = 1, day = 1, hour = 9, minute = 0, second = 0\<rparr>"
      by (simp only: s1 strptime_0900)
    show "strptime_HM (get (parse_post_data id ?env1) ''end_time'' '''')
            = Inr \<lparr>year = 1900, month = 1, day = 1, hour = 17, minute = 0, second = 0\<rparr>"
      by (simp only: e1 strptime_1700)
    show "request_path ?env2 = ''/search''" by (rule post_request_path)
    show "request_method ?env2 = ''POST''" by (rule post_request_method)
    show "sublist (get (parse_post_data id ?env2) ''employee_name'' '''')
                 (strip (get (parse_post_data id ?env1) ''employee_name'' ''''))"
      by (simp only: n1 n2 sublist_lic_Alice)
    show "get (parse_post_data id ?env2) ''date'' '''' = get (parse_post_data id ?env1) ''date'' ''''"
      by (simp only: d1 d2)
    show "strip (get (parse_post_data id ?env1) ''date'' '''') = get (parse_post_data id ?env1) ''date'' ''''"
      by (simp only: d1 strip_date_0102)
  qed
  then obtain h db1 rs row where
    "compute_total_hours ''09:00'' ''17:00'' = Inr h"
    "application id example_templates ?env1 None =
               (Inr \<lparr>status = ''303 See Other'', headers = [(''Location'', ''/'')], body = ''''\<rparr>, db1)"
    "search_results id ?env2 (init_db db1) = Inr rs"
    "row \<in> set rs"
    "employee_name row = ''Alice''" "date row = ''2024-01-02''"
    "start_time row = ''09:00''" "end_time row = ''17:00''"
    "rotation row = ''''" "comment row = ''''" "total_hours row = h"
    unfolding n1 d1 s1 e1 r1 c1 by blast
  moreover from this have "h = 8" by (simp add: compute_0900_1700)
  moreover have "sublist (get (parse_post_data id ?env2) ''employee_name'' '''')
                 (strip (get (parse_post_data id ?env1) ''employee_name'' ''''))"
    by (simp only: n1 n2 sublist_lic_Alice)
  ultimately show ?thesis
    using d2 by (simp only: post_request_path post_request_method) blast
qed

theorem padded_date_counterexample:
  "application id example_templates
      (post_request ''/'' ''employee_name=Bob&date=2024-01-03+&start_time=22:00&end_time=06:00'') None
     = (Inr \<lparr>status = ''303 See Other'', headers = [(''Location'', ''/'')], body = ''''\<rparr>,
        Some [\<lparr>row_id = 1, employee_name = ''Bob'', date = ''2024-01-03 '',
                start_time = ''22:00'', end_time = ''06:00'', rotation = '''',
                total_hours = 8, comment = ''''\<rparr>])
   \<and> get (parse_post_data id (post_request ''/search'' ''employee_name=Bob&date=2024-01-03+''))
         ''employee_name'' '''' = ''Bob''
   \<and> get (parse_post_data id (post_request ''/search'' ''employee_name=Bob&date=2024-01-03+''))
         ''date'' '''' = ''2024-01-03 ''
   \<and> search_results id (post_request ''/search'' ''employee_name=Bob&date=2024-01-03+'')
         (Some [\<lparr>row_id = 1, employee_name = ''Bob'', date = ''2024-01-03 '',
                 start_time = ''22:00'', end_time = ''06:00'', rotation = '''',
                 total_hours = 8, comment = ''''\<rparr>])
       = Inr []"
proof -
  note ev = get_def parse_post_data_first post_request_body parse_qsl_insert_Bob
    parse_qsl_search_Bob
  have 1: "application id example_templates
      (post_request ''/'' ''employee_name=Bob&date=2024-01-03+&start_time=22:00&end_time=06:00'') None
     = (Inr \<lparr>status = ''303 See Other'', headers = [(''Location'', ''/'')], body = ''''\<rparr>,
        Some [\<lparr>row_id = 1, employee_name = ''Bob'', date = ''2024-01-03 '',
                start_time = ''22:00'', end_time = ''06:00'', rotation = '''',
                total_hours = 8, comment = ''''\<rparr>])"
    using application_post_root [of "post_request ''/'' ''employee_name=Bob&date=2024-01-03+&start_time=22:00&end_time=06:00''"
        id example_templates None]
    by (simp add: post_request_path post_request_method ev compute_2200_0600 strip_Bob
          strip_empty table_rows_def)
  have 2: "search_results id (post_request ''/search'' ''employee_name=Bob&date=2024-01-03+'')
         (Some [\<lparr>row_id = 1, employee_name = ''Bob'', date = ''2024-01-03 '',
                 start_time = ''22:00'', end_time = ''06:00'', rotation = '''',
                 total_hours = 8, comment = ''''\<rparr>])
       = Inr []"
    by (simp add: search_results_eq ev strip_Bob strip_date_0103_space order_by_def)
  show ?thesis
    using 1 2 by (simp add: ev)
qed

subsection \<open>Missing form fields\<close>

text \<open>
  C5, as amended. In a \<^verbatim>\<open>POST /\<close>, each form field that is missing is read as the empty
  text. When \<^verbatim>\<open>start_time\<close> and \<^verbatim>\<open>end_time\<close> both parse, the request stores a row
  in which each of \<^verbatim>\<open>employee_name\<close>, \<^verbatim>\<open>date\<close>, \<^verbatim>\<open>rotation\<close> and
  \<^verbatim>\<open>comment\<close> that is missing is the empty text. When \<^verbatim>\<open>start_time\<close> or
  \<^verbatim>\<open>end_time\<close> is missing, the empty text does not parse as a time: the request ends
  with ValueError and stores nothing.
\<close>

theorem missing_fields_default:
  assumes "request_path env = ''/''" and "request_method env = ''POST''"
  shows "(\<forall>k. parse_post_data unquote env k = None
            \<longrightarrow> get (parse_post_data unquote env) k '''' = '''')
   \<and> (parse_post_data unquote env ''start_time'' = None
        \<or> parse_post_data unquote env ''end_time'' = None
        \<longrightarrow> application unquote templates env db = (Inl ValueError, init_db db))
   \<and> (\<forall>s e. strptime_HM (get (parse_post_data unquote env) ''start_time'' '''') = Inr s
           \<and> strptime_HM (get (parse_post_data unquote env) ''end_time'' '''') = Inr e
        \<longrightarrow> (\<exists>row. snd (application unquote templates env db) = Some (table_rows db @ [row])
               \<and> (parse_post_data unquote env ''employee_name'' = None \<longrightarrow> employee_name row = '''')
               \<and> (parse_post_data unquote env ''date'' = None \<longrightarrow> date row = '''')
               \<and> (parse_post_data unquote env ''rotation'' = None \<longrightarrow> rotation row = '''')
               \<and> (parse_post_data unquote env ''comment'' = None \<longrightarrow> comment row = '''')))"
proof (intro conjI allI impI)
  fix k assume "parse_post_data unquote env k = None"
  then show "get (parse_post_data unquote env) k '''' = ''''" by (simp add: get_def)
next
  assume "parse_post_data unquote env ''start_time'' = None
        \<or> parse_post_data unquote env ''end_time'' = None"
  then have "isl (strptime_HM (get (parse_post_data unquote env) ''start_time'' ''''))
         \<or> isl (strptime_HM (get (parse_post_data unquote env) ''end_time'' ''''))"
    by (auto simp: get_def strptime_empty)
  from compute_total_hours_malformed [OF this] application_post_root [OF assms]
  show "application unquote templates env db = (Inl ValueError, init_db db)"
    by simp
next
  fix s e
  assume "strptime_HM (get (parse_post_data unquote env) ''start_time'' '''') = Inr s
           \<and> strptime_HM (get (parse_post_data unquote env) ''end_time'' '''') = Inr e"
  then obtain h where "compute_total_hours (get (parse_post_data unquote env) ''start_time'' '''')
       (get (parse_post_data unquote env) ''end_time'' '''') = Inr h"
    using compute_total_hours_returns by blast
  with application_post_root [OF assms, of unquote templates db]
  show "\<exists>row. snd (application unquote templates env db) = Some (table_rows db @ [row])
               \<and> (parse_post_data unquote env ''employee_name'' = None \<longrightarrow> employee_name row = '''')
               \<and> (parse_post_data unquote env ''date'' = None \<longrightarrow> date row = '''')
               \<and> (parse_post_data unquote env ''rotation'' = None \<longrightarrow> rotation row = '''')
               \<and> (parse_post_data unquote env ''comment'' = None \<longrightarrow> comment row = '''')"
    by (simp add: get_def strip_empty)
qed

theorem missing_start_time_counterexample:
  "parse_post_data id (post_request ''/'' ''employee_name=Bob&end_time=17:00'') ''start_time'' = None
   \<and> application id example_templates (post_request ''/'' ''employee_name=Bob&end_time=17:00'') None
       = (Inl ValueError, Some [])"
proof -
  have q: "parse_qsl id ''employee_name=Bob&end_time=17:00''
             = [(''employee_name'', ''Bob''), (''end_time'', ''17:00'')]"
    by code_simp
  have n: "parse_post_data id (post_request ''/'' ''employee_name=Bob&end_time=17:00'') ''start_time'' = None"
    by (simp add: parse_post_data_first post_request_body q)
  then have "compute_total_hours
      (get (parse_post_data id (post_request ''/'' ''employee_name=Bob&end_time=17:00'')) ''start_time'' '''')
      (get (parse_post_data id (post_request ''/'' ''employee_name=Bob&end_time=17:00'')) ''end_time'' '''')
      = Inl ValueError"
    by (intro compute_total_hours_malformed) (simp add: get_def strptime_empty)
  then show ?thesis
    using n application_post_root [of "post_request ''/'' ''employee_name=Bob&end_time=17:00''"
        id example_templates None]
    by (simp add: post_request_path post_request_method init_db_def)
qed

theorem missing_fields_default_witness:
  "request_path (post_request ''/'' ''start_time=09:00&end_time=17:00'') = ''/''
   \<and> request_method (post_request ''/'' ''start_time=09:00&end_time=17:00'') = ''POST''
   \<and> parse_post_data id (post_request ''/'' ''start_time=09:00&end_time=17:00'') ''rotation'' = None
   \<and> (\<exists>s e. strptime_HM (get (parse_post_data id (post_request ''/'' ''start_time=09:00&end_time=17:00''))
                            ''start_time'' '''') = Inr s
            \<and> strptime_HM (get (parse_post_data id (post_request ''/'' ''start_time=09:00&end_time=17:00''))
                            ''end_time'' '''') = Inr e)
   \<and> (\<exists>row. snd (application id example_templates
                     (post_request ''/'' ''start_time=09:00&end_time=17:00'') None) = Some [row]
          \<and> rotation row = '''')"
proof -
  let ?env = "post_request ''/'' ''start_time=09:00&end_time=17:00''"
  have q: "parse_qsl id ''start_time=09:00&end_time=17:00''
             = [(''start_time'', ''09:00''), (''end_time'', ''17:00'')]"
    by code_simp
  have n: "parse_post_data id ?env ''rotation'' = None"
    by (simp add: parse_post_data_first post_request_body q)
  have s: "strptime_HM (get (parse_post_data id ?env) ''start_time'' '''')
             = Inr \<lparr>year = 1900, month = 1, day = 1, hour = 9, minute = 0, second = 0\<rparr>"
    by (simp add: get_def parse_post_data_first post_request_body q strptime_0900)
  have e: "strptime_HM (get (parse_post_data id ?env) ''end_time'' '''')
             = Inr \<lparr>year = 1900, month = 1, day = 1, hour = 17, minute = 0, second = 0\<rparr>"
    by (simp add: get_def parse_post_data_first post_request_body q strptime_1700)
  have "\<exists>row. snd (application id example_templates ?env None) = Some (table_rows None @ [row])
          \<and> rotation row = ''''"
    using missing_fields_default [of ?env id example_templates None] n s e
    by (simp only: post_request_path post_request_method) blast
  then show ?thesis
    using n s e by (simp add: post_request_path post_request_method table_rows_def)
qed

subsection \<open>Search without filters, search without matches\<close>

text \<open>
  C6. In a \<^verbatim>\<open>POST /search\<close>, the results are sorted by date descending and, within
  equal dates, by start time ascending. With the employee-name filter and the date filter
  both empty, the results are all stored rows, each as often as it is stored. With an
  employee-name filter that no stored name matches (matching is SQLite's \<^verbatim>\<open>LIKE\<close> with
  the pattern \<^verbatim>\<open>%filter%\<close>), the results are the empty list, and the page is rendered
  from that list.
\<close>

theorem search_sorted_all_or_empty:
  assumes "request_path env = ''/search''" and "request_method env = ''POST''"
  shows "(let name_filter = strip (get (parse_post_data unquote env) ''employee_name'' '''');
              date_filter = strip (get (parse_post_data unquote env) ''date'' '''')
          in \<exists>rs. search_results unquote env (init_db db) = Inr rs
               \<and> application unquote templates env db =
                   (case render_template templates ''search.html'' (Some [(''results'', Rows rs)]) of
                      Inl e \<Rightarrow> (Inl e, init_db db)
                    | Inr page \<Rightarrow>
                       (Inr \<lparr>status = ''200 OK'',
                             headers = [(''Content-Type'', ''text/html; charset=utf-8'')],
                             body = page\<rparr>, init_db db))
               \<and> sorted_wrt (\<lambda>a b. date b < date a \<or> (date a = date b \<and> start_time a \<le> start_time b)) rs
               \<and> (name_filter = [] \<and> date_filter = [] \<longrightarrow> mset rs = mset (table_rows db))
               \<and> (name_filter \<noteq> []
                    \<and> (\<forall>r\<in>set (table_rows db). \<not> like (''%'' @ name_filter @ ''%'') (employee_name r))
                   \<longrightarrow> rs = []))"
proof -
  define name_filter where "name_filter = strip (get (parse_post_data unquote env) ''employee_name'' '''')"
  define date_filter where "date_filter = strip (get (parse_post_data unquote env) ''date'' '''')"
  define matching where "matching = filter (\<lambda>r. (name_filter \<noteq> [] \<longrightarrow> like (''%'' @ name_filter @ ''%'') (employee_name r))
                        \<and> (date_filter \<noteq> [] \<longrightarrow> date r = date_filter))
                    (table_rows db)"
  define rs where "rs = order_by order_le matching"
  have 1: "search_results unquote env (init_db db) = Inr rs"
    unfolding rs_def matching_def name_filter_def date_filter_def by (rule search_results_init_db)
  have 2: "application unquote templates env db =
                   (case render_template templates ''search.html'' (Some [(''results'', Rows rs)]) of
                      Inl e \<Rightarrow> (Inl e, init_db db)
                    | Inr page \<Rightarrow>
                       (Inr \<lparr>status = ''200 OK'',
                             headers = [(''Content-Type'', ''text/html; charset=utf-8'')],
                             body = page\<rparr>, init_db db))"
    using application_post_search [OF assms, of unquote templates db] by (simp add: 1)
  have 3: "sorted_wrt (\<lambda>a b. date b < date a \<or> (date a = date b \<and> start_time a \<le> start_time b)) rs"
    using sorted_order_le [of matching] by (simp only: rs_def order_le_unfold)
  have 4: "name_filter = [] \<and> date_filter = [] \<longrightarrow> mset rs = mset (table_rows db)"
    by (simp add: rs_def matching_def mset_order_by)
  have "matching = []"
    if "name_filter \<noteq> []" "\<forall>r\<in>set (table_rows db). \<not> like (''%'' @ name_filter @ ''%'') (employee_name r)"
    using that by (simp add: matching_def)
  then have 5: "name_filter \<noteq> []
                    \<and> (\<forall>r\<in>set (table_rows db). \<not> like (''%'' @ name_filter @ ''%'') (employee_name r))
                   \<longrightarrow> rs = []"
    by (simp add: rs_def order_by_def)
  show ?thesis
    unfolding Let_def name_filter_def [symmetric] date_filter_def [symmetric]
    using 1 2 3 4 5 by blast
qed

theorem search_sorted_all_or_empty_witness:
  "request_path (post_request ''/search'' '''') = ''/search''
   \<and> request_method (post_request ''/search'' '''') = ''POST''
   \<and> strip (get (parse_post_data id (post_request ''/search'' '''')) ''employee_name'' '''') = []
   \<and> strip (get (parse_post_data id (post_request ''/search'' '''')) ''date'' '''') = []
   \<and> (\<exists>rs. search_results id (post_request ''/search'' '''')
              (init_db (Some [\<lparr>row_id = 1, employee_name = ''Alice'', date = ''2024-01-02'',
                                start_time = ''09:00'', end_time = ''17:00'', rotation = ''day'',
                                total_hours = 8, comment = ''''\<rparr>,
                              \<lparr>row_id = 2, employee_name = ''Bob'', date = ''2024-01-03'',
                                start_time = ''22:00'', end_time = ''06:00'', rotation = ''night'',
                                total_hours = 8, comment = ''''\<rparr>])) = Inr rs
          \<and> mset rs = mset [\<lparr>row_id = 1, employee_name = ''Alice'', date = ''2024-01-02'',
                                start_time = ''09:00'', end_time = ''17:00'', rotation = ''day'',
                                total_hours = 8, comment = ''''\<rparr>,
                              \<lparr>row_id = 2, employee_name = ''Bob'', date = ''2024-01-03'',
                                start_time = ''22:00'', end_time = ''06:00'', rotation = ''night'',
                                total_hours = 8, comment = ''''\<rparr>]
          \<and> sorted_wrt (\<lambda>a b. date b < date a \<or> (date a = date b \<and> start_time a \<le> start_time b)) rs)
   \<and> strip (get (parse_post_data id (post_request ''/search'' ''employee_name=zed'')) ''employee_name'' '''')
       = ''zed''
   \<and> search_results id (post_request ''/search'' ''employee_name=zed'')
              (init_db (Some [\<lparr>row_id = 1, employee_name = ''Alice'', date = ''2024-01-02'',
                                start_time = ''09:00'', end_time = ''17:00'', rotation = ''day'',
                                total_hours = 8, comment = ''''\<rparr>,
                              \<lparr>row_id = 2, employee_name = ''Bob'', date = ''2024-01-03'',
                                start_time = ''22:00'', end_time = ''06:00'', rotation = ''night'',
                                total_hours = 8, comment = ''''\<rparr>])) = Inr []"
proof -
  let ?all = "post_request ''/search'' ''''"
  let ?zed = "post_request ''/search'' ''employee_name=zed''"
  let ?rows = "[\<lparr>row_id = 1, employee_name = ''Alice'', date = ''2024-01-02'',
                                start_time = ''09:00'', end_time = ''17:00'', rotation = ''day'',
                                total_hours = 8, comment = ''''\<rparr>,
                              \<lparr>row_id = 2, employee_name = ''Bob'', date = ''2024-01-03'',
                                start_time = ''22:00'', end_time = ''06:00'', rotation = ''night'',
                                total_hours = 8, comment = ''''\<rparr>]"
  note ev = get_def parse_post_data_first post_request_body parse_qsl_empty parse_qsl_search_zed
  have n: "strip (get (parse_post_data id ?all) ''employee_name'' '''') = []"
    by (simp add: ev strip_empty)
  have d: "strip (get (parse_post_data id ?all) ''date'' '''') = []"
    by (simp add: ev strip_empty)
  have z: "strip (get (parse_post_data id ?zed) ''employee_name'' '''') = ''zed''"
    by (simp add: ev strip_zed)
  have nm: "\<forall>r\<in>set (table_rows (Some ?rows)). \<not> like (''%'' @ ''zed'' @ ''%'') (employee_name r)"
    using not_like_zed_Alice not_like_zed_Bob by (simp add: table_rows_def)
  have a: "\<exists>rs. search_results id ?all (init_db (Some ?rows)) = Inr rs
          \<and> mset rs = mset ?rows
          \<and> sorted_wrt (\<lambda>a b. date b < date a \<or> (date a = date b \<and> start_time a \<le> start_time b)) rs"
    using search_sorted_all_or_empty [of ?all id "Some ?rows" example_templates]
    unfolding Let_def n d
    by (simp only: post_request_path post_request_method table_rows_def option.case) blast
  have b: "search_results id ?zed (init_db (Some ?rows)) = Inr []"
    using search_sorted_all_or_empty [of ?zed id "Some ?rows" example_templates] nm
    unfolding Let_def z
    by (simp only: post_request_path post_request_method) blast
  show ?thesis
    using a b n d z by (simp only: post_request_path post_request_method)
qed

subsection \<open>Total hours are never negative and never change\<close>

text \<open>
  C8. For two texts that parse, \<open>compute_total_hours\<close> returns a value, and the value
  is not negative. So in every state the system can reach, every stored row has
  \<open>total_hours\<close> zero or more. No request changes a row that is stored: the rows
  before a request are the first rows after it, unchanged, whatever the request was.
\<close>

theorem total_hours_nonnegative:
  "(\<forall>st et s e. strptime_HM st = Inr s \<and> strptime_HM et = Inr e
       \<longrightarrow> (\<exists>h. compute_total_hours st et = Inr h \<and> 0 \<le> h))
   \<and> (reachable db \<longrightarrow> (\<forall>r\<in>set (table_rows db). 0 \<le> total_hours r))
   \<and> (\<forall>unquote templates env.
         prefix (table_rows db) (table_rows (snd (application unquote templates env db))))"
proof -
  have "prefix (table_rows db) (table_rows (snd (application unquote templates env db)))"
    for unquote templates env
    using application_rows [of unquote templates env db] by auto
  then show ?thesis
    using compute_total_hours_returns reachable_nonneg by blast
qed

theorem total_hours_nonnegative_witness:
  "reachable (snd (application id example_templates
                     (post_request ''/'' ''start_time=09:00&end_time=17:00'') None))
   \<and> table_rows (snd (application id example_templates
                     (post_request ''/'' ''start_time=09:00&end_time=17:00'') None))
       = [\<lparr>row_id = 1, employee_name = '''', date = '''', start_time = ''09:00'',
           end_time = ''17:00'', rotation = '''', total_hours = 8, comment = ''''\<rparr>]
   \<and> list_all (\<lambda>r. 0 \<le> total_hours r)
         (table_rows (snd (application id example_templates
                     (post_request ''/'' ''start_time=09:00&end_time=17:00'') None)))
   \<and> (\<exists>h. compute_total_hours ''09:00'' ''17:00'' = Inr h \<and> 0 \<le> h)"
proof -
  let ?env = "post_request ''/'' ''start_time=09:00&end_time=17:00''"
  let ?db = "snd (application id example_templates ?env None)"
  have q: "parse_qsl id ''start_time=09:00&end_time=17:00''
             = [(''start_time'', ''09:00''), (''end_time'', ''17:00'')]"
    by code_simp
  have r: "reachable ?db"
    by (intro reachable.intros)
  have rows: "table_rows ?db
       = [\<lparr>row_id = 1, employee_name = '''', date = '''', start_time = ''09:00'',
           end_time = ''17:00'', rotation = '''', total_hours = 8, comment = ''''\<rparr>]"
    using application_post_root [of ?env id example_templates None]
    by (simp add: post_request_path post_request_method get_def parse_post_data_first
          post_request_body q compute_0900_1700 strip_empty table_rows_def)
  have "\<forall>r\<in>set (table_rows ?db). 0 \<le> total_hours r"
    and "\<exists>h. compute_total_hours ''09:00'' ''17:00'' = Inr h \<and> 0 \<le> h"
    using total_hours_nonnegative [of ?db] r strptime_0900 strptime_1700
    by blast+
  then show ?thesis
    using r rows by (simp only: list_all_iff)
qed

subsection \<open>Schema initialisation\<close>

text \<open>
  C9. Calling \<open>init_db\<close> any number of times on an existing table leaves it as it is,
  with the same rows in the same order and none twice; on a missing table the first call
  creates an empty one and the later calls leave that as it is. Whatever the state, the
  rows after any number of calls are the rows before.
\<close>

theorem init_db_idempotent:
  "(init_db ^^ n) (Some rows) = Some rows
   \<and> (init_db ^^ Suc n) None = Some []
   \<and> table_rows ((init_db ^^ n) db) = table_rows db"
proof -
  have a: "(init_db ^^ Suc n) None = Some []"
    by (simp add: funpow_Suc_right init_db_funpow init_db_def del: funpow.simps)
  have b: "table_rows ((init_db ^^ n) db) = table_rows db"
    by (induction n) (simp_all add: table_rows_init_db)
  show ?thesis using a b init_db_funpow by blast
qed

theorem init_db_idempotent_witness:
  "(init_db ^^ 3) (Some [\<lparr>row_id = 1, employee_name = ''Bob'', date = ''2024-01-02'',
        start_time = ''09:00'', end_time = ''17:00'', rotation = ''day'', total_hours = 8,
        comment = ''''\<rparr>])
     = Some [\<lparr>row_id = 1, employee_name = ''Bob'', date = ''2024-01-02'',
        start_time = ''09:00'', end_time = ''17:00'', rotation = ''day'', total_hours = 8,
        comment = ''''\<rparr>]
   \<and> (init_db ^^ 3) None = Some []"
  using init_db_idempotent [of 3 "[\<lparr>row_id = 1, employee_name = ''Bob'', date = ''2024-01-02'',
        start_time = ''09:00'', end_time = ''17:00'', rotation = ''day'', total_hours = 8,
        comment = ''''\<rparr>]"] init_db_idempotent [of 2]
  by (simp add: numeral_3_eq_3)

subsection \<open>Repeated and blank form fields\<close>

text \<open>
  C10, as amended. The parsed form gives a field the value of its first occurrence in the
  body whose value is not blank; the pairs that \<^verbatim>\<open>parse_qsl\<close> yields are, in the
  order of the body, those of the fields that have a \<^verbatim>\<open>=\<close> with something after it. A
  field that occurs only with blank values (\<^verbatim>\<open>comment=\<close>) is not in the parsed form at
  all, as if it were missing, and \<open>get\<close> gives its default, the empty text.
\<close>

theorem form_first_nonblank_value:
  "parse_post_data unquote env k =
     (case filter (\<lambda>(n, v). n = k) (parse_qsl unquote (request_body env)) of
        [] \<Rightarrow> None | (n, v) # _ \<Rightarrow> Some v)
   \<and> parse_qsl unquote (request_body env) =
       map (\<lambda>f. (unquote (replace ''+'' '' '' (takeWhile (\<lambda>c. c \<noteq> CHR ''='') f)),
                 unquote (replace ''+'' '' '' (tl (dropWhile (\<lambda>c. c \<noteq> CHR ''='') f)))))
           (filter (\<lambda>f. CHR ''='' \<in> set f \<and> tl (dropWhile (\<lambda>c. c \<noteq> CHR ''='') f) \<noteq> [])
                   (split_on CHR ''&'' (request_body env)))
   \<and> ((\<forall>v. (k, v) \<notin> set (parse_qsl unquote (request_body env)))
        \<longrightarrow> parse_post_data unquote env k = None
            \<and> get (parse_post_data unquote env) k '''' = '''')"
proof -
  have "filter (\<lambda>(n, v). n = k) ps = []" if "\<forall>v. (k, v) \<notin> set ps" for ps :: "(string \<times> string) list"
    using that by (induction ps) auto
  then show ?thesis
    using parse_post_data_first [of unquote env k] parse_qsl_fields [of unquote "request_body env"]
    by (auto simp: get_def)
qed

theorem form_first_nonblank_value_witness:
  "(\<forall>v. (''comment'', v) \<notin> set (parse_qsl id (request_body (post_request ''/'' ''comment=&rotation=day''))))
   \<and> parse_post_data id (post_request ''/'' ''comment=&rotation=day'') ''comment'' = None
   \<and> parse_post_data id (post_request ''/'' ''comment=&rotation=day'') ''rotation'' = Some ''day''
   \<and> get (parse_post_data id (post_request ''/'' ''comment=&rotation=day'')) ''comment'' '''' = ''''"
proof -
  have q: "parse_qsl id ''comment=&rotation=day'' = [(''rotation'', ''day'')]"
    by code_simp
  have h: "\<forall>v. (''comment'', v) \<notin> set (parse_qsl id (request_body (post_request ''/'' ''comment=&rotation=day'')))"
    by (simp add: post_request_body q)
  have r: "parse_post_data id (post_request ''/'' ''comment=&rotation=day'') ''rotation'' = Some ''day''"
    using form_first_nonblank_value [of id "post_request ''/'' ''comment=&rotation=day''" "''rotation''"]
    by (simp add: post_request_body q)
  show ?thesis
    using form_first_nonblank_value [of id "post_request ''/'' ''comment=&rotation=day''" "''comment''"] h r
    by blast
qed

theorem form_first_value_counterexample:
  "split_on CHR ''&'' (request_body (post_request ''/'' ''comment=&comment=x'')) = [''comment='', ''comment=x'']
   \<and> parse_post_data id (post_request ''/'' ''comment=&comment=x'') ''comment'' = Some ''x''"
proof -
  have "split_on CHR ''&'' ''comment=&comment=x'' = [''comment='', ''comment=x'']"
    by code_simp
  moreover have "parse_qsl id ''comment=&comment=x'' = [(''comment'', ''x'')]"
    by code_simp
  ultimately show ?thesis
    by (simp add: post_request_body parse_post_data_first)
qed

end
